theory Spec2Isabelle
  imports Complex_Main
begin

section \<open>JavaScript numbers\<close>

text \<open>
  Every number of the scroller is a JavaScript number. The model keeps the three
  special values of IEEE-754 apart from the finite ones, because the source tests for
  them (\<^verbatim>\<open>isNaN\<close>) and produces them (a division by a zero time delta). Finite
  values are real numbers: rounding is not modelled, and zero is unsigned (every zero
  the modelled code divides by is the difference of two equal numbers or the quotient
  of a zero height, both of which are \<^verbatim>\<open>+0\<close>).
\<close>

datatype jsnum = Fin real | PInf | NInf | NaN

instantiation jsnum :: "{plus, minus, uminus, times, inverse, abs, ord}"
begin

fun uminus_jsnum :: "jsnum \<Rightarrow> jsnum" where
  "uminus_jsnum (Fin a) = Fin (- a)"
| "uminus_jsnum PInf = NInf"
| "uminus_jsnum NInf = PInf"
| "uminus_jsnum NaN = NaN"

fun plus_jsnum :: "jsnum \<Rightarrow> jsnum \<Rightarrow> jsnum" where
  "plus_jsnum (Fin a) (Fin b) = Fin (a + b)"
| "plus_jsnum NaN y = NaN"
| "plus_jsnum x NaN = NaN"
| "plus_jsnum PInf NInf = NaN"
| "plus_jsnum NInf PInf = NaN"
| "plus_jsnum PInf y = PInf"
| "plus_jsnum x PInf = PInf"
| "plus_jsnum NInf y = NInf"
| "plus_jsnum x NInf = NInf"

definition minus_jsnum :: "jsnum \<Rightarrow> jsnum \<Rightarrow> jsnum" where
  "minus_jsnum x y = x + (- y)"

fun times_jsnum :: "jsnum \<Rightarrow> jsnum \<Rightarrow> jsnum" where
  "times_jsnum (Fin a) (Fin b) = Fin (a * b)"
| "times_jsnum NaN y = NaN"
| "times_jsnum x NaN = NaN"
| "times_jsnum PInf (Fin b) = (if b = 0 then NaN else if 0 < b then PInf else NInf)"
| "times_jsnum NInf (Fin b) = (if b = 0 then NaN else if 0 < b then NInf else PInf)"
| "times_jsnum (Fin a) PInf = (if a = 0 then NaN else if 0 < a then PInf else NInf)"
| "times_jsnum (Fin a) NInf = (if a = 0 then NaN else if 0 < a then NInf else PInf)"
| "times_jsnum PInf PInf = PInf"
| "times_jsnum PInf NInf = NInf"
| "times_jsnum NInf PInf = NInf"
| "times_jsnum NInf NInf = PInf"

fun divide_jsnum :: "jsnum \<Rightarrow> jsnum \<Rightarrow> jsnum" where
  "divide_jsnum (Fin a) (Fin b) =
     (if b = 0 then (if a = 0 then NaN else if 0 < a then PInf else NInf)
      else Fin (a / b))"
| "divide_jsnum NaN y = NaN"
| "divide_jsnum x NaN = NaN"
| "divide_jsnum (Fin a) PInf = Fin 0"
| "divide_jsnum (Fin a) NInf = Fin 0"
| "divide_jsnum PInf (Fin b) = (if 0 \<le> b then PInf else NInf)"
| "divide_jsnum NInf (Fin b) = (if 0 \<le> b then NInf else PInf)"
| "divide_jsnum PInf y = NaN"
| "divide_jsnum NInf y = NaN"

definition inverse_jsnum :: "jsnum \<Rightarrow> jsnum" where
  "inverse_jsnum x = divide (Fin 1) (x::jsnum)"

fun abs_jsnum :: "jsnum \<Rightarrow> jsnum" where
  "abs_jsnum (Fin a) = Fin \<bar>a\<bar>"
| "abs_jsnum PInf = PInf"
| "abs_jsnum NInf = PInf"
| "abs_jsnum NaN = NaN"

fun less_jsnum :: "jsnum \<Rightarrow> jsnum \<Rightarrow> bool" where
  "less_jsnum (Fin a) (Fin b) = (a < b)"
| "less_jsnum NaN y = False"
| "less_jsnum x NaN = False"
| "less_jsnum x PInf = (x \<noteq> PInf)"
| "less_jsnum NInf y = (y \<noteq> NInf)"
| "less_jsnum PInf y = False"
| "less_jsnum x NInf = False"

fun less_eq_jsnum :: "jsnum \<Rightarrow> jsnum \<Rightarrow> bool" where
  "less_eq_jsnum (Fin a) (Fin b) = (a \<le> b)"
| "less_eq_jsnum NaN y = False"
| "less_eq_jsnum x NaN = False"
| "less_eq_jsnum x PInf = True"
| "less_eq_jsnum NInf y = True"
| "less_eq_jsnum PInf y = False"
| "less_eq_jsnum x NInf = False"

instance ..

end

text \<open>\<^verbatim>\<open>isNaN\<close>, and \<^verbatim>\<open>==\<close> on two numbers: \<^verbatim>\<open>NaN\<close> equals nothing, itself included.\<close>

fun isNaN :: "jsnum \<Rightarrow> bool" where
  "isNaN NaN = True"
| "isNaN x = False"

definition js_eq :: "jsnum \<Rightarrow> jsnum \<Rightarrow> bool" where
  "js_eq x y = (\<not> isNaN x \<and> \<not> isNaN y \<and> x = y)"

text \<open>\<^verbatim>\<open>Math.exp\<close> and \<^verbatim>\<open>Math.sqrt\<close>.\<close>

fun Math_exp :: "jsnum \<Rightarrow> jsnum" where
  "Math_exp (Fin a) = Fin (exp a)"
| "Math_exp PInf = PInf"
| "Math_exp NInf = Fin 0"
| "Math_exp NaN = NaN"

fun Math_sqrt :: "jsnum \<Rightarrow> jsnum" where
  "Math_sqrt (Fin a) = (if a < 0 then NaN else Fin (sqrt a))"
| "Math_sqrt PInf = PInf"
| "Math_sqrt NInf = NaN"
| "Math_sqrt NaN = NaN"

text \<open>
  Modelled from the spec: \<^verbatim>\<open>rflect.math.sign\<close> is required by the scroller but its
  file is not part of the sources. The spec says of the velocity that its ``sign [is]
  taken from \<open>\<Delta>\<close>position''; the model is the signum, \<open>1\<close>, \<open>0\<close> or \<open>-1\<close>.
\<close>

fun sign :: "jsnum \<Rightarrow> jsnum" where
  "sign (Fin a) = Fin (sgn a)"
| "sign PInf = Fin 1"
| "sign NInf = Fin (- 1)"
| "sign NaN = NaN"


section \<open>The scroller's data\<close>

text \<open>
  The class \<^verbatim>\<open>rflect.ui.MomentumScroller\<close> of
  \<^verbatim>\<open>src/momentum-scroller/momentumscroller.js\<close>. A private field \<^verbatim>\<open>name_\<close> of
  the source is written \<open>name'\<close>, since an Isabelle name cannot end with an underscore.
\<close>

definition DRAG_THRESHOLD :: jsnum where
  "DRAG_THRESHOLD = Fin 5"

definition OUT_OF_BOUNDS_MAXIMUM :: jsnum where
  "OUT_OF_BOUNDS_MAXIMUM = Fin 100"

definition ACCELERATION_SLIDING :: jsnum where
  "ACCELERATION_SLIDING = Fin 0.0005"

definition ACCELERATION_BOUNCE_BACK_COEFF :: jsnum where
  "ACCELERATION_BOUNCE_BACK_COEFF = Fin 10"

definition MAXIMUM_VELOCITY :: jsnum where
  "MAXIMUM_VELOCITY = Fin 3.5"

definition SCROLLBAR_MIN_HEIGHT :: jsnum where
  "SCROLLBAR_MIN_HEIGHT = Fin 5"

datatype QUEUED_TRANSITION_STAGE = NONE | TO_BOUNDS | BOUNCED_OUT | BOUNCED_BACK

text \<open>
  A DOM element is known by its identity. \<^verbatim>\<open>goog.math.Size\<close> keeps the measured
  height, which the DOM reports as a finite number (the width is never read).
\<close>

type_synonym node = nat

record Size =
  height :: real

text \<open>
  The values the scroller writes to the \<^verbatim>\<open>transition\<close> and \<^verbatim>\<open>transform\<close> style
  properties, kept as data instead of the CSS text they are printed into:
  \<^verbatim>\<open>''\<close>, \<^verbatim>\<open>'transform <t>ms <easing>'\<close> and \<^verbatim>\<open>SCROLLBAR_HIDE_TRANSITION\<close>
  (\<^verbatim>\<open>'opacity .2s'\<close>); \<^verbatim>\<open>'translate3d(0, <y>px, 0)'\<close> and \<^verbatim>\<open>'scaleY(<k>)'\<close>.
\<close>

datatype easing = EaseOut | CubicBezier jsnum jsnum jsnum jsnum

datatype transition = NoTransition | TransformTransition jsnum easing | HideTransition

datatype transform = Translate3dY jsnum | ScaleY jsnum

text \<open>The element under a point, as far as \<^verbatim>\<open>needsFocus\<close> and \<^verbatim>\<open>focusIfNeeded\<close> read it.\<close>

record target =
  nodeName :: string
  inputType :: string
  disabled :: bool
  readOnly :: bool
  hasSetSelectionRange :: bool
  valueLength :: nat

text \<open>What a handler does to the event it was given and to the document around it.\<close>

datatype effect =
    StopPropagation
  | PreventDefault
  | DispatchClick jsnum jsnum target
  | SetSelectionRange target nat nat
  | Focus target

record scroller =
  enabled' :: "bool option"
  startTouchY :: jsnum
  startTouchX :: jsnum
  contentOffsetY :: jsnum
  contentStartOffsetY :: jsnum
  previousPoint' :: jsnum
  previousMoment' :: jsnum
  currentPoint' :: jsnum
  currentMoment' :: jsnum
  isDragging' :: bool
  isDecelerating' :: bool
  stopPropagationOnTouchEnd' :: bool
  queuedTransitionStage' :: QUEUED_TRANSITION_STAGE
  endMomentumVelocity' :: jsnum
  element :: "node option"
  frameElement :: "node option"
  elementSize :: Size
  frameElementSize :: Size
  scrollBarShowTimeout' :: "bool option"
  elementTransition :: transition
  elementTransform :: "transform option"
  containerTransition :: transition
  containerTransform :: "transform option"
  containerOpacity :: string
  lineTransition :: transition
  lineTransform :: "transform option"
  frameStyled :: bool
  scrollBarAttached :: bool
  listening :: bool
  effects :: "effect list"

text \<open>
  Beyond the fields of the prototype, the record holds what the scroller has done to
  the document: the style values last written to the content element, to the scrollbar
  container and to the scrollbar line, whether the frame carries the scroller's
  \<^verbatim>\<open>overflow\<close> and \<^verbatim>\<open>position\<close>, whether the scrollbar container is a child of the
  frame, whether the listeners of \<^verbatim>\<open>enterDocument\<close> are attached, and the log of
  event and document effects. \<open>scrollBarShowTimeout'\<close> is the pending timer: \<open>Some b\<close>
  when \<^verbatim>\<open>showScrollBar(b)\<close> is scheduled. Fields that the source leaves undefined
  until they are first written (\<^verbatim>\<open>enabled_\<close>, the elements) are options;
  \<^verbatim>\<open>endMomentumVelocity_\<close> and \<^verbatim>\<open>startTouchX\<close> start as \<open>NaN\<close>, which is
  what \<^verbatim>\<open>undefined\<close> is in the arithmetic and the comparisons that read them. The
  two sizes are read only after \<^verbatim>\<open>calculateSizes\<close> has measured them. The field
  \<^verbatim>\<open>isOutOfBounds_\<close> is never read or written and is left out.
\<close>

text \<open>The state of the class itself: the instance counter and the shared stylesheet nodes.\<close>

record glob =
  instancesCount' :: int
  styleSheets :: nat

text \<open>
  What the scroller reads from the browser and does not own: layout, the child of a
  frame, hit testing, the clock (\<^verbatim>\<open>goog.now\<close>), and the entries \<^verbatim>\<open>m42\<close> and
  \<^verbatim>\<open>m22\<close> of the computed transform matrices that \<^verbatim>\<open>stopMomentum\<close> reads back.
\<close>

record browser =
  getSize :: "node \<Rightarrow> Size"
  getFirstElementChild :: "node \<Rightarrow> node option"
  elementFromPoint :: "jsnum \<Rightarrow> jsnum \<Rightarrow> target option"
  now :: real
  elementM42 :: real
  scrollBarContainerM42 :: real
  scrollBarLineM22 :: real

text \<open>The first touch point of a touch event, and the target of a transition event.\<close>

record touch_event =
  clientX :: real
  clientY :: real

record transition_event =
  eventTarget :: node

text \<open>
  A method that can throw returns \<open>Threw\<close> with the state reached at the throw
  (a \<^verbatim>\<open>TypeError\<close> on reading a property of \<^verbatim>\<open>null\<close>): the assignments made before
  it stay.
\<close>

datatype 'a completion = Normal 'a | Threw 'a

fun state_of :: "'a completion \<Rightarrow> 'a" where
  "state_of (Normal s) = s"
| "state_of (Threw s) = s"

definition initial :: scroller where
  "initial = \<lparr> enabled' = None, startTouchY = Fin 0, startTouchX = NaN,
     contentOffsetY = Fin 0, contentStartOffsetY = Fin 0,
     previousPoint' = Fin 0, previousMoment' = Fin 0,
     currentPoint' = Fin 0, currentMoment' = Fin 0,
     isDragging' = False, isDecelerating' = False, stopPropagationOnTouchEnd' = False,
     queuedTransitionStage' = NONE, endMomentumVelocity' = NaN,
     element = None, frameElement = None,
     elementSize = \<lparr> height = 0 \<rparr>, frameElementSize = \<lparr> height = 0 \<rparr>,
     scrollBarShowTimeout' = None,
     elementTransition = NoTransition, elementTransform = None,
     containerTransition = NoTransition, containerTransform = None, containerOpacity = [],
     lineTransition = NoTransition, lineTransform = None,
     frameStyled = False, scrollBarAttached = False, listening = False, effects = [] \<rparr>"

definition initial_glob :: glob where
  "initial_glob = \<lparr> instancesCount' = 0, styleSheets = 0 \<rparr>"

section \<open>Geometry and kinematics\<close>

definition getScrollBarLineHeight :: "Size \<Rightarrow> Size \<Rightarrow> jsnum" where
  "getScrollBarLineHeight aElementSize aFrameElementSize =
     (let h = Fin (height aFrameElementSize) /
                (Fin (height aElementSize) / Fin (height aFrameElementSize))
      in if h < SCROLLBAR_MIN_HEIGHT then SCROLLBAR_MIN_HEIGHT else h)"

definition getLowestContentPosition :: "scroller \<Rightarrow> jsnum" where
  "getLowestContentPosition s =
     - Fin (height (elementSize s)) + Fin (height (frameElementSize s))"

definition positionIsOutOfBounds :: "scroller \<Rightarrow> jsnum \<Rightarrow> bool" where
  "positionIsOutOfBounds s aPosition =
     (Fin 0 < aPosition \<or> aPosition < getLowestContentPosition s)"

definition isOutOfBounds :: "scroller \<Rightarrow> bool" where
  "isOutOfBounds s = positionIsOutOfBounds s (contentOffsetY s)"

text \<open>
  \<^verbatim>\<open>isDragging\<close> assigns while it answers:
  \<^verbatim>\<open>this.isDragging_ || (this.isDragging_ = (Math.abs(...) >= DRAG_THRESHOLD))\<close>.
\<close>

definition isDragging :: "scroller \<Rightarrow> bool \<times> scroller" where
  "isDragging s =
     (if isDragging' s then (True, s)
      else (let b = (DRAG_THRESHOLD \<le> \<bar>currentPoint' s - startTouchY s\<bar>)
            in (b, s\<lparr> isDragging' := b \<rparr>)))"

definition shouldStartMomentum :: "scroller \<Rightarrow> bool" where
  "shouldStartMomentum s = (if isOutOfBounds s then False else True)"

definition getEndMomentumVelocity :: "jsnum \<Rightarrow> jsnum \<Rightarrow> jsnum \<Rightarrow> jsnum" where
  "getEndMomentumVelocity aStartVelocity aDisplacement aAcceleration =
     Math_sqrt (aStartVelocity * aStartVelocity + aDisplacement * Fin 2 * aAcceleration)"

definition getAcceleration :: "jsnum \<Rightarrow> jsnum" where
  "getAcceleration aVelocity =
     (if aVelocity < Fin 0 then ACCELERATION_SLIDING else - ACCELERATION_SLIDING)"

definition getTime :: "jsnum \<Rightarrow> jsnum \<Rightarrow> jsnum" where
  "getTime aVelocity aAcceleration = - aVelocity / aAcceleration"

definition getEndVelocity :: "scroller \<Rightarrow> jsnum" where
  "getEndVelocity s =
     (let velocity = (currentPoint' s - previousPoint' s) /
                     (currentMoment' s - previousMoment' s);
          velocitySign = sign (currentPoint' s - previousPoint' s)
      in if isNaN velocity then Fin 0
         else if MAXIMUM_VELOCITY < \<bar>velocity\<bar> then velocitySign * MAXIMUM_VELOCITY
         else velocity)"


section \<open>Rendering\<close>

text \<open>
  The position of the scrollbar container for a content offset inside the bounds; the
  source writes this expression out in \<^verbatim>\<open>animateTo\<close>, \<^verbatim>\<open>doMomentum\<close> and
  \<^verbatim>\<open>setUpTransitionStage1\<close>.
\<close>

definition scrollBarOffset :: "scroller \<Rightarrow> jsnum \<Rightarrow> jsnum" where
  "scrollBarOffset s y =
     - (y / (Fin (height (elementSize s)) / Fin (height (frameElementSize s))) -
        getScrollBarLineHeight (elementSize s) (frameElementSize s) / Fin 2)"

definition animateTo :: "jsnum \<Rightarrow> bool \<Rightarrow> scroller \<Rightarrow> scroller" where
  "animateTo offsetY opt_doNotAnimateScrollBar s =
     (let s1 = s\<lparr> contentOffsetY := offsetY,
                   elementTransform := Some (Translate3dY offsetY) \<rparr>
      in if opt_doNotAnimateScrollBar then s1
         else
           (let lowestContentPosition = getLowestContentPosition s1;
                offsetYWithinBounds =
                  (if Fin 0 < offsetY then Fin 0
                   else if offsetY < lowestContentPosition then lowestContentPosition
                   else offsetY);
                deltaOutOfBounds = \<bar>offsetY - offsetYWithinBounds\<bar>;
                scrollBarLineReduced =
                  getScrollBarLineHeight (elementSize s1) (frameElementSize s1) -
                  deltaOutOfBounds;
                scrollBarLineReducedBounded =
                  (if scrollBarLineReduced < SCROLLBAR_MIN_HEIGHT then SCROLLBAR_MIN_HEIGHT
                   else scrollBarLineReduced)
            in s1\<lparr> containerTransform := Some (Translate3dY
                       (if Fin 0 < offsetY then scrollBarLineReducedBounded / Fin 2
                        else if offsetY < lowestContentPosition
                        then Fin (height (frameElementSize s1)) -
                             scrollBarLineReducedBounded / Fin 2
                        else scrollBarOffset s1 offsetYWithinBounds)),
                     lineTransform := Some (ScaleY scrollBarLineReducedBounded) \<rparr>))"

definition animateWithinBounds :: "jsnum \<Rightarrow> scroller \<Rightarrow> scroller" where
  "animateWithinBounds aOffsetY s =
     (let lowestContentPosition = getLowestContentPosition s;
          offsetY = (if Fin 0 < aOffsetY then Fin 0
                     else if aOffsetY < lowestContentPosition then lowestContentPosition
                     else aOffsetY)
      in animateTo offsetY False s)"

definition getScrollTop :: "scroller \<Rightarrow> jsnum" where
  "getScrollTop s =
     (if isNaN (contentOffsetY s) \<or> js_eq (contentOffsetY s) (Fin 0) then Fin 0
      else - contentOffsetY s)"

definition setScrollTop :: "jsnum \<Rightarrow> scroller \<Rightarrow> scroller" where
  "setScrollTop aScrollTop s =
     (let scrollTop = (if isNaN aScrollTop \<or> js_eq aScrollTop (Fin 0) then Fin 0
                       else - aScrollTop)
      in animateWithinBounds scrollTop s)"

definition snapToBounds :: "scroller \<Rightarrow> scroller" where
  "snapToBounds s =
     (let transition = TransformTransition (Fin 500) EaseOut;
          s1 = s\<lparr> elementTransition := transition, containerTransition := transition,
                   lineTransition := transition \<rparr>;
          s2 = (if Fin 0 < contentOffsetY s1
                then s1\<lparr> contentOffsetY := Fin 0,
                         containerTransform := Some (Translate3dY
                           (getScrollBarLineHeight (elementSize s1) (frameElementSize s1) /
                            Fin 2)) \<rparr>
                else s1\<lparr> contentOffsetY := getLowestContentPosition s1,
                         containerTransform := Some (Translate3dY
                           (Fin (height (frameElementSize s1)) -
                            getScrollBarLineHeight (elementSize s1) (frameElementSize s1) /
                            Fin 2)) \<rparr>)
      in s2\<lparr> elementTransform := Some (Translate3dY (contentOffsetY s2)),
              lineTransform := Some (ScaleY
                (getScrollBarLineHeight (elementSize s2) (frameElementSize s2))),
              isDecelerating' := True \<rparr>)"

definition showScrollBar :: "bool \<Rightarrow> scroller \<Rightarrow> scroller" where
  "showScrollBar aShow s =
     (let s1 = s\<lparr> scrollBarShowTimeout' := None \<rparr>;
          s2 = (if \<not> aShow then s1\<lparr> containerTransition := HideTransition \<rparr> else s1)
      in s2\<lparr> containerOpacity := (if aShow then ''1'' else ''0'') \<rparr>)"

definition showScrollBarDelayed :: "bool \<Rightarrow> scroller \<Rightarrow> scroller" where
  "showScrollBarDelayed aShow s = s\<lparr> scrollBarShowTimeout' := Some aShow \<rparr>"

text \<open>The callback of the timer that \<^verbatim>\<open>showScrollBarDelayed\<close> sets.\<close>

definition scrollBarShowTimeoutFires :: "scroller \<Rightarrow> scroller" where
  "scrollBarShowTimeoutFires s =
     (case scrollBarShowTimeout' s of None \<Rightarrow> s | Some aShow \<Rightarrow> showScrollBar aShow s)"

section \<open>Momentum and the staged bounce\<close>

definition setUpTransitionStage1 :: "scroller \<Rightarrow> scroller" where
  "setUpTransitionStage1 s =
     (let velocity = getEndVelocity s;
          acceleration = getAcceleration velocity;
          displacement = (if Fin 0 < velocity then - contentOffsetY s
                          else getLowestContentPosition s - contentOffsetY s);
          s1 = (if Fin 0 < velocity then s\<lparr> contentOffsetY := Fin 0 \<rparr>
                else s\<lparr> contentOffsetY := getLowestContentPosition s \<rparr>);
          s2 = s1\<lparr> endMomentumVelocity' :=
                      (if velocity < Fin 0 then Fin (- 1) else Fin 1) *
                      getEndMomentumVelocity velocity displacement acceleration \<rparr>;
          time = \<bar>(velocity - endMomentumVelocity' s2) / acceleration\<bar>;
          valueToLowerCubicBezierWith = \<bar>endMomentumVelocity' s2 / velocity\<bar> * Fin 0.33;
          transition = TransformTransition time
            (CubicBezier (Fin 0.33) (Fin 0.66 - valueToLowerCubicBezierWith)
                         (Fin 0.66) (Fin 1 - valueToLowerCubicBezierWith))
      in s2\<lparr> elementTransition := transition,
              elementTransform := Some (Translate3dY (contentOffsetY s2)),
              containerTransition := transition,
              containerTransform := Some (Translate3dY (scrollBarOffset s2 (contentOffsetY s2))),
              queuedTransitionStage' := TO_BOUNDS \<rparr>)"

text \<open>The displacement that \<^verbatim>\<open>setUpTransitionStage2\<close> plans and then clamps.\<close>

definition stage2Displacement :: "jsnum \<Rightarrow> jsnum" where
  "stage2Displacement velocity =
     (let acceleration = getAcceleration velocity * ACCELERATION_BOUNCE_BACK_COEFF;
          displacement = - (velocity * velocity) / (Fin 2 * acceleration);
          displacement1 = (if OUT_OF_BOUNDS_MAXIMUM < displacement
                           then OUT_OF_BOUNDS_MAXIMUM else displacement)
      in if displacement1 < - OUT_OF_BOUNDS_MAXIMUM
         then - OUT_OF_BOUNDS_MAXIMUM else displacement1)"

definition setUpTransitionStage2 :: "scroller \<Rightarrow> scroller" where
  "setUpTransitionStage2 s =
     (let velocity = endMomentumVelocity' s;
          displacement = stage2Displacement velocity;
          time = Fin 100;
          newY = (if Fin 0 < velocity then displacement else contentOffsetY s + displacement);
          transition = TransformTransition time
            (CubicBezier (Fin 0.33) (Fin 0.66) (Fin 0.66) (Fin 1));
          scrollBarLineReduced =
            getScrollBarLineHeight (elementSize s) (frameElementSize s) - \<bar>displacement\<bar>
      in s\<lparr> contentOffsetY := newY,
             elementTransition := transition,
             elementTransform := Some (Translate3dY newY),
             containerTransition := transition,
             lineTransition := transition,
             lineTransform := Some (ScaleY scrollBarLineReduced),
             containerTransform := Some (Translate3dY
               (if Fin 0 < velocity then scrollBarLineReduced / Fin 2
                else Fin (height (frameElementSize s)) - scrollBarLineReduced / Fin 2)),
             queuedTransitionStage' := BOUNCED_OUT \<rparr>)"

definition setUpTransitionStage3 :: "scroller \<Rightarrow> scroller" where
  "setUpTransitionStage3 s = (snapToBounds s)\<lparr> queuedTransitionStage' := BOUNCED_BACK \<rparr>"

definition doMomentum :: "scroller \<Rightarrow> scroller" where
  "doMomentum s =
     (let velocity = getEndVelocity s
      in if \<not> js_eq velocity (Fin 0) then
           (let acceleration = getAcceleration velocity;
                displacement = - (velocity * velocity) / (Fin 2 * acceleration);
                time = - velocity / acceleration;
                newY = contentOffsetY s + displacement;
                s1 = (if positionIsOutOfBounds s newY then setUpTransitionStage1 s
                      else
                        (let transition = TransformTransition time
                               (CubicBezier (Fin 0.33) (Fin 0.66) (Fin 0.66) (Fin 1))
                         in s\<lparr> elementTransition := transition,
                                containerTransition := transition,
                                contentOffsetY := newY,
                                elementTransform := Some (Translate3dY newY),
                                containerTransform :=
                                  Some (Translate3dY (scrollBarOffset s newY)) \<rparr>))
            in s1\<lparr> isDecelerating' := True \<rparr>)
         else showScrollBarDelayed False s)"

definition isDecelerating :: "scroller \<Rightarrow> bool" where
  "isDecelerating s = isDecelerating' s"

definition stopMomentum :: "browser \<Rightarrow> scroller \<Rightarrow> scroller" where
  "stopMomentum b s =
     (let s1 =
        (if isDecelerating s then
           (let s2 = s\<lparr> elementTransition := NoTransition,
                         containerTransition := NoTransition,
                         lineTransition := NoTransition \<rparr>;
                s3 = animateTo (Fin (elementM42 b)) True s2
            in s3\<lparr> containerTransform := Some (Translate3dY (Fin (scrollBarContainerM42 b))),
                    lineTransform := Some (ScaleY (Fin (scrollBarLineM22 b))),
                    queuedTransitionStage' := NONE,
                    stopPropagationOnTouchEnd' := True \<rparr>)
         else s\<lparr> stopPropagationOnTouchEnd' := False \<rparr>)
      in s1\<lparr> isDecelerating' := False \<rparr>)"


section \<open>Synthesized clicks\<close>

text \<open>\<^verbatim>\<open>String.prototype.toLowerCase\<close> on the ASCII letters of a node name.\<close>

definition toLowerCase :: "string \<Rightarrow> string" where
  "toLowerCase str =
     map (\<lambda>c. let n = (of_char c :: nat)
               in if 65 \<le> n \<and> n \<le> 90 then char_of (n + 32) else c) str"

definition needsFocus :: "target \<Rightarrow> bool" where
  "needsFocus aElement =
     (let name = toLowerCase (nodeName aElement)
      in if name = ''textarea'' then True
         else if name = ''select'' then True
         else if name = ''input'' then
           (if inputType aElement \<in> set [''button'', ''checkbox'', ''file'', ''image'',
                                           ''radio'', ''submit'']
            then False
            else \<not> disabled aElement \<and> \<not> readOnly aElement)
         else False)"

text \<open>\<^verbatim>\<open>aElement.type.indexOf('date') !== 0\<close>: the type does not start with \<^verbatim>\<open>date\<close>.\<close>

definition focusIfNeeded :: "target \<Rightarrow> scroller \<Rightarrow> scroller" where
  "focusIfNeeded aElement s =
     (if needsFocus aElement then
        (if hasSetSelectionRange aElement \<and> take 4 (inputType aElement) \<noteq> ''date'' \<and>
            inputType aElement \<noteq> ''time'' \<and> inputType aElement \<noteq> ''month''
         then s\<lparr> effects := effects s @
                   [SetSelectionRange aElement (valueLength aElement) (valueLength aElement)] \<rparr>
         else s\<lparr> effects := effects s @ [Focus aElement] \<rparr>)
      else s)"

text \<open>
  \<^verbatim>\<open>document.elementFromPoint\<close> answers \<^verbatim>\<open>null\<close> for a point outside the viewport,
  and \<^verbatim>\<open>element.dispatchEvent\<close> then throws. The listeners that the page has on the
  click are taken not to call back into the scroller.
\<close>

definition synthesizeClick :: "browser \<Rightarrow> jsnum \<Rightarrow> jsnum \<Rightarrow> scroller \<Rightarrow> scroller completion" where
  "synthesizeClick b aClientX aClientY s =
     (case elementFromPoint b aClientX aClientY of
        None \<Rightarrow> Threw s
      | Some el \<Rightarrow>
          Normal (focusIfNeeded el
            (s\<lparr> effects := effects s @ [DispatchClick aClientX aClientY el] \<rparr>)))"

section \<open>Event handlers\<close>

text \<open>The handlers are modelled as compiled for production, with \<^verbatim>\<open>goog.DEBUG\<close> false.\<close>

definition onTouchStart :: "touch_event \<Rightarrow> browser \<Rightarrow> scroller \<Rightarrow> scroller" where
  "onTouchStart aEvent b s =
     (let s1 = stopMomentum b s;
          s2 = showScrollBar True s1;
          s3 = (if stopPropagationOnTouchEnd' s2
                then s2\<lparr> effects := effects s2 @ [StopPropagation, PreventDefault] \<rparr>
                else s2);
          s4 = s3\<lparr> startTouchY := Fin (clientY aEvent), startTouchX := Fin (clientX aEvent) \<rparr>;
          s5 = s4\<lparr> contentStartOffsetY := contentOffsetY s4 \<rparr>;
          s6 = s5\<lparr> currentPoint' := startTouchY s5, previousPoint' := startTouchY s5 \<rparr>
      in s6\<lparr> currentMoment' := Fin (now b), previousMoment' := Fin (now b),
              isDragging' := True \<rparr>)"

definition onTouchMove :: "touch_event \<Rightarrow> browser \<Rightarrow> scroller \<Rightarrow> scroller" where
  "onTouchMove aEvent b s =
     (let (dragging, s1) = isDragging s
      in if dragging then
           (let currentY = Fin (clientY aEvent);
                deltaY = currentY - startTouchY s1;
                deltaY1 = (if isOutOfBounds s1
                           then deltaY / Math_exp \<bar>deltaY / Fin 550\<bar> else deltaY);
                newY = deltaY1 + contentStartOffsetY s1;
                s2 = s1\<lparr> previousPoint' := currentPoint' s1,
                          previousMoment' := currentMoment' s1 \<rparr>;
                s3 = s2\<lparr> currentPoint' := currentY, currentMoment' := Fin (now b) \<rparr>
            in animateTo newY False s3)
         else s1)"

definition onTouchEnd :: "touch_event \<Rightarrow> browser \<Rightarrow> scroller \<Rightarrow> scroller completion" where
  "onTouchEnd aEvent b s =
     (let (dragging, s1) = isDragging s;
          s2 = (if dragging
                then (if shouldStartMomentum s1 then doMomentum s1 else snapToBounds s1)
                else showScrollBarDelayed False s1);
          r = (if stopPropagationOnTouchEnd' s2 \<or>
                  DRAG_THRESHOLD \<le> \<bar>currentPoint' s2 - startTouchY s2\<bar>
               then Normal (s2\<lparr> effects := effects s2 @ [StopPropagation, PreventDefault],
                                 stopPropagationOnTouchEnd' := False \<rparr>)
               else synthesizeClick b (startTouchX s2) (startTouchY s2) s2)
      in case r of
           Threw s3 \<Rightarrow> Threw s3
         | Normal s3 \<Rightarrow>
             Normal (s3\<lparr> previousPoint' := Fin 0, previousMoment' := Fin 0,
                          currentPoint' := Fin 0, currentMoment' := Fin 0,
                          startTouchY := Fin 0, startTouchX := Fin 0,
                          isDragging' := False \<rparr>))"

definition onTransitionEnd :: "transition_event \<Rightarrow> scroller \<Rightarrow> scroller" where
  "onTransitionEnd aEvent s =
     (if Some (eventTarget aEvent) \<noteq> element s then s
      else
        (case queuedTransitionStage' s of
           NONE \<Rightarrow>
             (showScrollBarDelayed False
                (s\<lparr> elementTransition := NoTransition, containerTransition := NoTransition,
                     lineTransition := NoTransition \<rparr>))\<lparr> isDecelerating' := False \<rparr>
         | TO_BOUNDS \<Rightarrow> setUpTransitionStage2 s
         | BOUNCED_OUT \<Rightarrow> setUpTransitionStage3 s
         | BOUNCED_BACK \<Rightarrow>
             (showScrollBarDelayed False
                (s\<lparr> queuedTransitionStage' := NONE,
                     elementTransition := NoTransition, lineTransition := NoTransition,
                     containerTransition := NoTransition \<rparr>))\<lparr> isDecelerating' := False \<rparr>))"

section \<open>Attaching and detaching\<close>

definition addStyleSheet :: "glob \<Rightarrow> glob" where
  "addStyleSheet g = g\<lparr> styleSheets := styleSheets g + 1 \<rparr>"

text \<open>\<^verbatim>\<open>goog.dom.removeNode\<close> of a node that is not there removes nothing.\<close>

definition removeStyleSheet :: "glob \<Rightarrow> glob" where
  "removeStyleSheet g =
     (if 0 < styleSheets g then g\<lparr> styleSheets := styleSheets g - 1 \<rparr> else g)"

definition setUpStyles :: "scroller \<Rightarrow> scroller" where
  "setUpStyles s = s\<lparr> frameStyled := True \<rparr>"

definition restoreStyles :: "scroller \<Rightarrow> scroller" where
  "restoreStyles s = s\<lparr> frameStyled := False \<rparr>"

definition enterDocument :: "scroller \<Rightarrow> scroller" where
  "enterDocument s = s\<lparr> listening := True \<rparr>"

definition exitDocument :: "scroller \<Rightarrow> scroller" where
  "exitDocument s = s\<lparr> listening := False \<rparr>"

definition isEnabled :: "scroller \<Rightarrow> bool option" where
  "isEnabled s = enabled' s"

text \<open>
  \<^verbatim>\<open>enabled == aEnabled\<close> holds only when the flag has been set to that boolean:
  \<^verbatim>\<open>undefined == false\<close> is false. \<^verbatim>\<open>setUpStyles\<close> and \<^verbatim>\<open>restoreStyles\<close> throw
  when there is no frame element, \<^verbatim>\<open>calculateSizes\<close> when there is no content element.
\<close>

definition enable :: "bool \<Rightarrow> browser \<Rightarrow> glob \<times> scroller \<Rightarrow> (glob \<times> scroller) completion" where
  "enable aEnabled b gs =
     (let (g, s) = gs
      in if isEnabled s = Some aEnabled then Normal (g, s)
         else
           (let s1 = s\<lparr> enabled' := Some aEnabled \<rparr>
            in if aEnabled then
                 (let g1 = g\<lparr> instancesCount' := instancesCount' g + 1 \<rparr>;
                      g2 = (if 1 = instancesCount' g1 then addStyleSheet g1 else g1)
                  in case frameElement s1 of
                       None \<Rightarrow> Threw (g2, s1)
                     | Some frame \<Rightarrow>
                         (let s2 = setUpStyles s1
                          in case element s2 of
                               None \<Rightarrow> Threw (g2, s2)
                             | Some el \<Rightarrow>
                                 (let s3 = s2\<lparr> elementSize := getSize b el,
                                               frameElementSize := getSize b frame \<rparr>;
                                      s4 = enterDocument s3;
                                      s5 = animateWithinBounds (contentOffsetY s4) s4;
                                      s6 = s5\<lparr> lineTransform := Some (ScaleY
                                             (getScrollBarLineHeight (elementSize s5)
                                                (frameElementSize s5))) \<rparr>
                                  in Normal (g2, s6\<lparr> scrollBarAttached := True \<rparr>))))
               else
                 (let g1 = g\<lparr> instancesCount' := instancesCount' g - 1 \<rparr>;
                      g2 = (if instancesCount' g1 < 0 then g1\<lparr> instancesCount' := 0 \<rparr>
                            else g1);
                      s2 = s1\<lparr> scrollBarAttached := False \<rparr>;
                      g3 = (if 0 = instancesCount' g2 then removeStyleSheet g2 else g2)
                  in case frameElement s2 of
                       None \<Rightarrow> Threw (g3, s2)
                     | Some frame \<Rightarrow>
                         Normal (g3, (exitDocument (restoreStyles s2))
                                       \<lparr> element := None, frameElement := None \<rparr>))))"

definition resetInternal :: "scroller \<Rightarrow> scroller" where
  "resetInternal s =
     s\<lparr> startTouchY := Fin 0, contentOffsetY := Fin 0, contentStartOffsetY := Fin 0 \<rparr>"

definition add :: "node \<Rightarrow> browser \<Rightarrow> glob \<times> scroller \<Rightarrow> (glob \<times> scroller) completion" where
  "add aElement b gs =
     (let (g, s) = gs;
          s1 = s\<lparr> frameElement := Some aElement \<rparr>;
          s2 = s1\<lparr> element := getFirstElementChild b aElement \<rparr>
      in enable True b (g, s2))"

definition remove :: "browser \<Rightarrow> glob \<times> scroller \<Rightarrow> (glob \<times> scroller) completion" where
  "remove b gs = enable False b gs"

definition reset :: "node \<Rightarrow> browser \<Rightarrow> glob \<times> scroller \<Rightarrow> (glob \<times> scroller) completion" where
  "reset aElement b gs =
     (case remove b gs of
        Threw gs1 \<Rightarrow> Threw gs1
      | Normal (g, s) \<Rightarrow> add aElement b (g, resetInternal s))"

definition suspend :: "browser \<Rightarrow> glob \<times> scroller \<Rightarrow> (glob \<times> scroller) completion" where
  "suspend b gs = remove b gs"

definition resume :: "node \<Rightarrow> browser \<Rightarrow> glob \<times> scroller \<Rightarrow> (glob \<times> scroller) completion" where
  "resume aElement b gs =
     (case add aElement b gs of
        Threw gs1 \<Rightarrow> Threw gs1
      | Normal (g, s) \<Rightarrow> Normal (g, animateWithinBounds (contentOffsetY s) s))"

text \<open>
  \<^verbatim>\<open>disposeInternal\<close> drops the scrollbar nodes, so that the next use makes new ones,
  and the inherited \<^verbatim>\<open>disposeInternal\<close> removes every listener.
\<close>

definition disposeInternal :: "browser \<Rightarrow> glob \<times> scroller \<Rightarrow> (glob \<times> scroller) completion" where
  "disposeInternal b gs =
     (case enable False b gs of
        Threw gs1 \<Rightarrow> Threw gs1
      | Normal (g, s) \<Rightarrow>
          Normal (g, (resetInternal s)
            \<lparr> containerTransition := NoTransition, containerTransform := None,
              containerOpacity := [], lineTransition := NoTransition, lineTransform := None,
              listening := False \<rparr>))"


section \<open>Runs of the scroller\<close>

text \<open>
  The states a scroller can be in: it starts as the prototype leaves it, its methods
  are called with any arguments, and the browser delivers touch and transition events
  while the listeners of \<^verbatim>\<open>enterDocument\<close> are attached, and fires the scrollbar
  timer. A method that throws leaves the state it had reached. \<^verbatim>\<open>setScrollTop\<close>
  is taken to run in every state, also where the browser would throw for want of an
  element: that only adds states.
\<close>

inductive reachable :: "scroller \<Rightarrow> bool" where
  reachable_initial: "reachable initial"
| reachable_enable: "reachable s \<Longrightarrow> reachable (snd (state_of (enable a b (g, s))))"
| reachable_add: "reachable s \<Longrightarrow> reachable (snd (state_of (add el b (g, s))))"
| reachable_remove: "reachable s \<Longrightarrow> reachable (snd (state_of (remove b (g, s))))"
| reachable_reset: "reachable s \<Longrightarrow> reachable (snd (state_of (reset el b (g, s))))"
| reachable_suspend: "reachable s \<Longrightarrow> reachable (snd (state_of (suspend b (g, s))))"
| reachable_resume: "reachable s \<Longrightarrow> reachable (snd (state_of (resume el b (g, s))))"
| reachable_dispose: "reachable s \<Longrightarrow> reachable (snd (state_of (disposeInternal b (g, s))))"
| reachable_setScrollTop: "reachable s \<Longrightarrow> reachable (setScrollTop y s)"
| reachable_onTouchStart: "reachable s \<Longrightarrow> listening s \<Longrightarrow> reachable (onTouchStart e b s)"
| reachable_onTouchMove: "reachable s \<Longrightarrow> listening s \<Longrightarrow> reachable (onTouchMove e b s)"
| reachable_onTouchEnd:
    "reachable s \<Longrightarrow> listening s \<Longrightarrow> reachable (state_of (onTouchEnd e b s))"
| reachable_onTransitionEnd:
    "reachable s \<Longrightarrow> listening s \<Longrightarrow> reachable (onTransitionEnd t s)"
| reachable_timeout: "reachable s \<Longrightarrow> reachable (scrollBarShowTimeoutFires s)"

text \<open>
  Several scrollers share the counter of the class: a call of \<^verbatim>\<open>enable\<close> on the
  scroller numbered \<open>i\<close>, whether it returns or throws.
\<close>

definition enableAt ::
  "nat \<times> bool \<times> browser \<Rightarrow> glob \<times> (nat \<Rightarrow> scroller) \<Rightarrow> glob \<times> (nat \<Rightarrow> scroller)" where
  "enableAt c w =
     (let (i, aEnabled, b) = c;
          (g, ss) = w;
          (g1, s1) = state_of (enable aEnabled b (g, ss i))
      in (g1, ss(i := s1)))"

text \<open>How many transition-finished signals a stage is away from \<open>NONE\<close>.\<close>

fun signals_left :: "QUEUED_TRANSITION_STAGE \<Rightarrow> nat" where
  "signals_left NONE = 0"
| "signals_left TO_BOUNDS = 3"
| "signals_left BOUNCED_OUT = 2"
| "signals_left BOUNCED_BACK = 1"

section \<open>Example states\<close>

text \<open>
  Two samples taken in the same millisecond, ten pixels apart: a zero time delta with a
  position delta that is not zero.
\<close>

definition same_moment_samples :: scroller where
  "same_moment_samples =
     initial\<lparr> previousPoint' := Fin 0, currentPoint' := Fin 10,
              previousMoment' := Fin 1000, currentMoment' := Fin 1000 \<rparr>"

text \<open>A tap without a move (all samples equal), and a slow drag of two pixels in ten milliseconds.\<close>

definition still_samples :: scroller where
  "still_samples =
     initial\<lparr> previousPoint' := Fin 100, currentPoint' := Fin 100,
              previousMoment' := Fin 1000, currentMoment' := Fin 1000 \<rparr>"

definition slow_samples :: scroller where
  "slow_samples =
     initial\<lparr> previousPoint' := Fin 100, currentPoint' := Fin 102,
              previousMoment' := Fin 1000, currentMoment' := Fin 1010 \<rparr>"

text \<open>
  Spec scenario 3, as a run: a frame 300 high (node 1) whose first child is content
  900 high (node 2), so that the lowest position is -600; under every point lies a
  text field holding five characters. The scroller is attached,
  the finger goes down at \<open>y = 100\<close>, moves to \<open>y = 50\<close> within 10 ms and is lifted:
  a flick towards the lower bound. Then the first transition finishes.
\<close>

definition text_input :: target where
  "text_input = \<lparr> nodeName = ''INPUT'', inputType = ''text'', disabled = False,
                  readOnly = False, hasSetSelectionRange = True, valueLength = 5 \<rparr>"

definition page :: browser where
  "page = \<lparr> getSize = (\<lambda>n. if n = 2 then \<lparr> height = 900 \<rparr> else \<lparr> height = 300 \<rparr>),
            getFirstElementChild = (\<lambda>n. if n = 1 then Some 2 else None),
            elementFromPoint = (\<lambda>x y. Some text_input),
            now = 0, elementM42 = 0, scrollBarContainerM42 = 0, scrollBarLineM22 = 1 \<rparr>"

definition attached :: scroller where
  "attached = snd (state_of (add 1 page (initial_glob, initial)))"

definition touched :: scroller where
  "touched = onTouchStart \<lparr> clientX = 10, clientY = 100 \<rparr> page attached"

definition dragged :: scroller where
  "dragged = onTouchMove \<lparr> clientX = 10, clientY = 50 \<rparr> (page\<lparr> now := 10 \<rparr>) touched"

definition flicked :: scroller where
  "flicked =
     state_of (onTouchEnd \<lparr> clientX = 10, clientY = 50 \<rparr> (page\<lparr> now := 20 \<rparr>) dragged)"

definition bounced_out :: scroller where
  "bounced_out = onTransitionEnd \<lparr> eventTarget = 2 \<rparr> flicked"

text \<open>
  What holds of the bounce in every reachable state: a stage other than \<open>NONE\<close> is in
  flight only while the scroller is decelerating, and the velocity carried from
  \<open>TO_BOUNDS\<close> to \<open>BOUNCED_OUT\<close> is a number.
\<close>

definition bounce_inv :: "scroller \<Rightarrow> bool" where
  "bounce_inv s =
     ((queuedTransitionStage' s \<noteq> NONE \<longrightarrow> isDecelerating' s) \<and>
      (queuedTransitionStage' s = TO_BOUNDS \<longrightarrow> \<not> isNaN (endMomentumVelocity' s)))"





section \<open>Facts about numbers\<close>

lemma Fin_minus [simp]: "Fin a - Fin b = Fin (a - b)"
  by (simp add: minus_jsnum_def)

lemma isNaN_iff: "isNaN x \<longleftrightarrow> x = NaN"
  by (cases x) simp_all

text \<open>
  A comparison with \<open>NaN\<close> or an infinity on the left fails, so the JavaScript test
  \<^verbatim>\<open>Math.abs(x) <= m\<close> says that \<open>x\<close> is a finite number of magnitude at most \<open>m\<close>.
\<close>

lemma abs_le_Fin_iff: "\<bar>x\<bar> \<le> Fin m \<longleftrightarrow> (\<exists>r. x = Fin r \<and> \<bar>r\<bar> \<le> m)"
  by (cases x) simp_all

section \<open>The velocity estimate\<close>

lemma capped_bounded:
  "\<bar>if isNaN (dp / dt) then Fin 0
    else if Fin 3.5 < \<bar>dp / dt\<bar> then sign dp * Fin 3.5 else dp / dt\<bar> \<le> Fin 3.5"
proof (cases dp)
  case (Fin p)
  show ?thesis
  proof (cases dt)
    case (Fin t)
    show ?thesis unfolding \<open>dp = Fin p\<close> Fin
      by (simp add: abs_mult abs_sgn_eq)
  qed (simp_all add: Fin)
next
  case PInf
  show ?thesis by (cases dt) (simp_all add: PInf)
next
  case NInf
  show ?thesis by (cases dt) (simp_all add: NInf)
next
  case NaN
  show ?thesis by (simp add: NaN)
qed

lemma getEndVelocity_unfold:
  "getEndVelocity s =
     (if isNaN ((currentPoint' s - previousPoint' s) / (currentMoment' s - previousMoment' s))
      then Fin 0
      else if Fin 3.5 < \<bar>(currentPoint' s - previousPoint' s) /
                         (currentMoment' s - previousMoment' s)\<bar>
      then sign (currentPoint' s - previousPoint' s) * Fin 3.5
      else (currentPoint' s - previousPoint' s) / (currentMoment' s - previousMoment' s))"
  by (simp add: getEndVelocity_def Let_def MAXIMUM_VELOCITY_def)

lemma getEndVelocity_bounded: "\<bar>getEndVelocity s\<bar> \<le> MAXIMUM_VELOCITY"
  unfolding getEndVelocity_unfold MAXIMUM_VELOCITY_def by (rule capped_bounded)

text \<open>
  C2, as stated, fails: with a time delta of 0 and a position delta of 10 the quotient
  is \<open>Infinity\<close>, not \<open>NaN\<close>, and \<^verbatim>\<open>getEndVelocity\<close> returns the maximum velocity
  3.5 instead of 0.
\<close>

theorem getEndVelocity_zero_time_delta_counterexample:
  "currentMoment' same_moment_samples - previousMoment' same_moment_samples = Fin 0 \<and>
   getEndVelocity same_moment_samples = Fin 3.5 \<and>
   getEndVelocity same_moment_samples \<noteq> Fin 0"
  by (simp add: getEndVelocity_unfold same_moment_samples_def initial_def)

text \<open>
  C2, amended: \<^verbatim>\<open>getEndVelocity\<close> returns 0 when the division yields \<open>NaN\<close>, which
  for finite samples is when both deltas are 0. With a time delta of 0 and a position
  delta \<open>p\<close> that is not 0 it returns \<open>3.5\<close> with the sign of \<open>p\<close>. With a time delta
  \<open>t\<close> that is not 0 it returns \<open>p / t\<close>, replaced by \<open>3.5\<close> with the sign of \<open>p\<close> when
  its magnitude exceeds 3.5. For all inputs, the special values included, the result
  is a finite number of magnitude at most \<open>MAXIMUM_VELOCITY = 3.5\<close>.
\<close>

theorem getEndVelocity_amended:
  "(isNaN ((currentPoint' s - previousPoint' s) / (currentMoment' s - previousMoment' s)) \<longrightarrow>
      getEndVelocity s = Fin 0)
   \<and> (\<forall>p t. currentPoint' s - previousPoint' s = Fin p \<and>
             currentMoment' s - previousMoment' s = Fin t \<and> t \<noteq> 0 \<longrightarrow>
        getEndVelocity s = Fin (if 3.5 < \<bar>p / t\<bar> then sgn p * 3.5 else p / t))
   \<and> (\<forall>p. currentPoint' s - previousPoint' s = Fin p \<and>
           currentMoment' s - previousMoment' s = Fin 0 \<longrightarrow>
        getEndVelocity s = Fin (sgn p * 3.5))
   \<and> \<bar>getEndVelocity s\<bar> \<le> MAXIMUM_VELOCITY
   \<and> MAXIMUM_VELOCITY = Fin 3.5"
proof (intro conjI allI impI)
  show "\<bar>getEndVelocity s\<bar> \<le> MAXIMUM_VELOCITY"
    by (rule getEndVelocity_bounded)
qed (simp_all add: getEndVelocity_unfold sgn_if MAXIMUM_VELOCITY_def)

theorem getEndVelocity_amended_witness:
  "isNaN ((currentPoint' still_samples - previousPoint' still_samples) /
          (currentMoment' still_samples - previousMoment' still_samples))
   \<and> getEndVelocity still_samples = Fin 0
   \<and> currentPoint' slow_samples - previousPoint' slow_samples = Fin 2
   \<and> currentMoment' slow_samples - previousMoment' slow_samples = Fin 10
   \<and> getEndVelocity slow_samples = Fin (2 / 10)
   \<and> currentPoint' same_moment_samples - previousPoint' same_moment_samples = Fin 10
   \<and> currentMoment' same_moment_samples - previousMoment' same_moment_samples = Fin 0
   \<and> getEndVelocity same_moment_samples = Fin 3.5"
  using getEndVelocity_amended [of still_samples] getEndVelocity_amended [of slow_samples]
    getEndVelocity_amended [of same_moment_samples]
  by (simp add: still_samples_def slow_samples_def same_moment_samples_def initial_def)

section \<open>The example run\<close>

lemmas model_defs = add_def enable_def isEnabled_def setUpStyles_def enterDocument_def
  animateWithinBounds_def animateTo_def getLowestContentPosition_def getScrollBarLineHeight_def
  scrollBarOffset_def SCROLLBAR_MIN_HEIGHT_def addStyleSheet_def
  onTouchStart_def stopMomentum_def isDecelerating_def showScrollBar_def
  onTouchMove_def isDragging_def isOutOfBounds_def positionIsOutOfBounds_def DRAG_THRESHOLD_def
  onTouchEnd_def shouldStartMomentum_def doMomentum_def getEndVelocity_def MAXIMUM_VELOCITY_def
  getAcceleration_def ACCELERATION_SLIDING_def setUpTransitionStage1_def getEndMomentumVelocity_def
  js_eq_def showScrollBarDelayed_def snapToBounds_def synthesizeClick_def
  onTransitionEnd_def setUpTransitionStage2_def stage2Displacement_def setUpTransitionStage3_def
  ACCELERATION_BOUNCE_BACK_COEFF_def OUT_OF_BOUNDS_MAXIMUM_def Let_def

lemma attached_eq:
  "attached = initial\<lparr> enabled' := Some True, element := Some 2, frameElement := Some 1,
     elementSize := \<lparr> height = 900 \<rparr>, frameElementSize := \<lparr> height = 300 \<rparr>,
     elementTransform := Some (Translate3dY (Fin 0)),
     containerTransform := Some (Translate3dY (Fin 50)),
     lineTransform := Some (ScaleY (Fin 100)),
     frameStyled := True, scrollBarAttached := True, listening := True \<rparr>"
  by (simp add: attached_def page_def initial_def initial_glob_def model_defs)

lemma touched_eq:
  "touched = attached\<lparr> containerOpacity := ''1'', startTouchY := Fin 100,
     startTouchX := Fin 10, currentPoint' := Fin 100, previousPoint' := Fin 100,
     isDragging' := True \<rparr>"
  by (simp add: touched_def attached_eq page_def initial_def model_defs)

lemma dragged_eq:
  "dragged = touched\<lparr> currentPoint' := Fin 50, currentMoment' := Fin 10,
     contentOffsetY := Fin (- 50), elementTransform := Some (Translate3dY (Fin (- 50))),
     containerTransform := Some (Translate3dY (Fin (200 / 3))),
     lineTransform := Some (ScaleY (Fin 100)) \<rparr>"
  by (simp add: dragged_def touched_eq attached_eq page_def initial_def model_defs)

lemma flicked_facts:
  "queuedTransitionStage' flicked = TO_BOUNDS"
  "contentOffsetY flicked = Fin (- 600)"
  "endMomentumVelocity' flicked = Fin (- sqrt 11.7)"
  "isDecelerating' flicked"
  "element flicked = Some 2"
  "listening flicked"
  "elementSize flicked = \<lparr> height = 900 \<rparr>"
  "frameElementSize flicked = \<lparr> height = 300 \<rparr>"
  by (simp_all add: flicked_def dragged_eq touched_eq attached_eq page_def initial_def model_defs)

lemma attached_listening: "listening attached" "listening touched" "listening dragged"
  by (simp_all add: dragged_eq touched_eq attached_eq initial_def)

lemma reachable_flicked: "reachable flicked"
proof -
  have "reachable attached"
    unfolding attached_def by (rule reachable_add [OF reachable_initial])
  then have "reachable touched"
    unfolding touched_def by (rule reachable_onTouchStart) (rule attached_listening)
  then have "reachable dragged"
    unfolding dragged_def by (rule reachable_onTouchMove) (rule attached_listening)
  then show ?thesis
    unfolding flicked_def by (rule reachable_onTouchEnd) (rule attached_listening)
qed

section \<open>The transition state machine\<close>

lemma snapToBounds_fields [simp]:
  "queuedTransitionStage' (snapToBounds s) = queuedTransitionStage' s"
  "isDecelerating' (snapToBounds s) = True"
  "endMomentumVelocity' (snapToBounds s) = endMomentumVelocity' s"
  "element (snapToBounds s) = element s"
  by (simp_all add: snapToBounds_def Let_def)

lemma setUpTransitionStage2_fields [simp]:
  "queuedTransitionStage' (setUpTransitionStage2 s) = BOUNCED_OUT"
  "isDecelerating' (setUpTransitionStage2 s) = isDecelerating' s"
  "endMomentumVelocity' (setUpTransitionStage2 s) = endMomentumVelocity' s"
  "element (setUpTransitionStage2 s) = element s"
  by (simp_all add: setUpTransitionStage2_def Let_def)

lemma setUpTransitionStage3_fields [simp]:
  "queuedTransitionStage' (setUpTransitionStage3 s) = BOUNCED_BACK"
  "isDecelerating' (setUpTransitionStage3 s) = True"
  "endMomentumVelocity' (setUpTransitionStage3 s) = endMomentumVelocity' s"
  "element (setUpTransitionStage3 s) = element s"
  by (simp_all add: setUpTransitionStage3_def)

lemma setUpTransitionStage1_fields [simp]:
  "queuedTransitionStage' (setUpTransitionStage1 s) = TO_BOUNDS"
  "isDecelerating' (setUpTransitionStage1 s) = isDecelerating' s"
  "element (setUpTransitionStage1 s) = element s"
  by (simp_all add: setUpTransitionStage1_def Let_def)

lemma onTransitionEnd_element [simp]: "element (onTransitionEnd e s) = element s"
  by (simp add: onTransitionEnd_def showScrollBarDelayed_def
      split: QUEUED_TRANSITION_STAGE.split)

lemma onTransitionEnd_stage:
  "Some (eventTarget e) = element s \<Longrightarrow>
   queuedTransitionStage' (onTransitionEnd e s) =
     (case queuedTransitionStage' s of
        NONE \<Rightarrow> NONE | TO_BOUNDS \<Rightarrow> BOUNCED_OUT
      | BOUNCED_OUT \<Rightarrow> BOUNCED_BACK | BOUNCED_BACK \<Rightarrow> NONE)"
  by (simp add: onTransitionEnd_def showScrollBarDelayed_def
      split: QUEUED_TRANSITION_STAGE.split)

lemma onTransitionEnd_signals_left:
  "Some (eventTarget e) = element s \<Longrightarrow>
   signals_left (queuedTransitionStage' (onTransitionEnd e s)) =
     signals_left (queuedTransitionStage' s) - 1"
  by (simp add: onTransitionEnd_stage split: QUEUED_TRANSITION_STAGE.split)

lemma fold_onTransitionEnd_element [simp]: "element (fold onTransitionEnd es s) = element s"
  by (induction es arbitrary: s) simp_all

lemma fold_onTransitionEnd_signals_left:
  "\<forall>e \<in> set es. Some (eventTarget e) = element s \<Longrightarrow>
   signals_left (queuedTransitionStage' (fold onTransitionEnd es s)) =
     signals_left (queuedTransitionStage' s) - length es"
proof (induction es arbitrary: s)
  case Nil
  then show ?case by simp
next
  case (Cons e es)
  then show ?case by (simp add: onTransitionEnd_signals_left)
qed

lemma signals_left_0: "signals_left st = 0 \<longleftrightarrow> st = NONE"
  by (cases st) simp_all

text \<open>
  C1: a transition-finished signal whose target is not the tracked content element
  changes nothing at all. On the tracked element a signal takes \<open>NONE\<close> to \<open>NONE\<close>,
  \<open>TO_BOUNDS\<close> to \<open>BOUNCED_OUT\<close>, \<open>BOUNCED_OUT\<close> to \<open>BOUNCED_BACK\<close> and \<open>BOUNCED_BACK\<close>
  to \<open>NONE\<close>: every stage has a successor. \<open>TO_BOUNDS\<close> is entered from
  \<^verbatim>\<open>setUpTransitionStage1\<close>. For every sequence of signals on the tracked element, the
  stage ends at \<open>NONE\<close> when it started there, and from any stage once three signals
  have arrived.
\<close>

theorem transition_stages_cycle:
  "(Some (eventTarget e) \<noteq> element s \<longrightarrow> onTransitionEnd e s = s)
   \<and> (Some (eventTarget e) = element s \<longrightarrow>
        queuedTransitionStage' (onTransitionEnd e s) =
          (case queuedTransitionStage' s of
             NONE \<Rightarrow> NONE | TO_BOUNDS \<Rightarrow> BOUNCED_OUT
           | BOUNCED_OUT \<Rightarrow> BOUNCED_BACK | BOUNCED_BACK \<Rightarrow> NONE))
   \<and> queuedTransitionStage' (setUpTransitionStage1 s) = TO_BOUNDS
   \<and> ((\<forall>e \<in> set es. Some (eventTarget e) = element s) \<longrightarrow>
        (queuedTransitionStage' s = NONE \<or> 3 \<le> length es \<longrightarrow>
           queuedTransitionStage' (fold onTransitionEnd es s) = NONE))"
proof (intro conjI impI)
  assume all: "\<forall>e \<in> set es. Some (eventTarget e) = element s"
    and enough: "queuedTransitionStage' s = NONE \<or> 3 \<le> length es"
  have "signals_left (queuedTransitionStage' s) \<le> length es"
    using enough by (cases "queuedTransitionStage' s") auto
  then have "signals_left (queuedTransitionStage' (fold onTransitionEnd es s)) = 0"
    using fold_onTransitionEnd_signals_left [OF all] by simp
  then show "queuedTransitionStage' (fold onTransitionEnd es s) = NONE"
    by (simp add: signals_left_0)
qed (simp_all add: onTransitionEnd_stage, simp add: onTransitionEnd_def)

theorem transition_stages_cycle_witness:
  "Some (eventTarget \<lparr> eventTarget = 7 \<rparr>) \<noteq> element flicked
   \<and> onTransitionEnd \<lparr> eventTarget = 7 \<rparr> flicked = flicked
   \<and> Some (eventTarget \<lparr> eventTarget = 2 \<rparr>) = element flicked
   \<and> queuedTransitionStage' flicked = TO_BOUNDS
   \<and> queuedTransitionStage' (onTransitionEnd \<lparr> eventTarget = 2 \<rparr> flicked) = BOUNCED_OUT
   \<and> set (replicate 3 \<lparr> eventTarget = (2::nat) \<rparr>) = {\<lparr> eventTarget = 2 \<rparr>}
   \<and> 3 \<le> length (replicate 3 \<lparr> eventTarget = (2::nat) \<rparr>)
   \<and> queuedTransitionStage'
        (fold onTransitionEnd (replicate 3 \<lparr> eventTarget = 2 \<rparr>) flicked) = NONE"
  using transition_stages_cycle [of "\<lparr> eventTarget = 7 \<rparr>" flicked "[]"]
    transition_stages_cycle [of "\<lparr> eventTarget = 2 \<rparr>" flicked
      "replicate 3 \<lparr> eventTarget = 2 \<rparr>"]
  by (simp add: flicked_facts)

section \<open>The scroll offset setter\<close>

lemma getLowestContentPosition_Fin:
  "getLowestContentPosition s = Fin (height (frameElementSize s) - height (elementSize s))"
  by (simp add: getLowestContentPosition_def)

lemma animateTo_fields [simp]:
  "contentOffsetY (animateTo y d s) = y"
  "elementSize (animateTo y d s) = elementSize s"
  "frameElementSize (animateTo y d s) = frameElementSize s"
  "queuedTransitionStage' (animateTo y d s) = queuedTransitionStage' s"
  "isDecelerating' (animateTo y d s) = isDecelerating' s"
  "endMomentumVelocity' (animateTo y d s) = endMomentumVelocity' s"
  by (simp_all add: animateTo_def Let_def)

lemma animateWithinBounds_offset:
  "contentOffsetY (animateWithinBounds y s) =
     (if Fin 0 < y then Fin 0
      else if y < getLowestContentPosition s then getLowestContentPosition s else y)"
  by (simp add: animateWithinBounds_def Let_def)

lemma setScrollTop_offset:
  "contentOffsetY (setScrollTop x s) =
     (let y = (if isNaN x \<or> js_eq x (Fin 0) then Fin 0 else - x)
      in if Fin 0 < y then Fin 0
         else if y < getLowestContentPosition s then getLowestContentPosition s else y)"
  by (simp add: setScrollTop_def animateWithinBounds_offset Let_def)

text \<open>
  C3, as stated, fails: the setter takes a DOM scroll-top and negates it, so on the
  geometry 300/900 the value \<open>-10000\<close> becomes the offset \<open>10000\<close>, which is clamped to
  the upper bound 0, not to \<open>-600\<close>.
\<close>

theorem setScrollTop_sign_counterexample:
  "getLowestContentPosition attached = Fin (- 600)
   \<and> contentOffsetY (setScrollTop (Fin (- 10000)) attached) = Fin 0
   \<and> contentOffsetY (setScrollTop (Fin (- 10000)) attached) \<noteq> Fin (- 600)"
  by (simp add: setScrollTop_offset getLowestContentPosition_Fin attached_eq js_eq_def Let_def)

text \<open>
  C3, amended: with frame height 300 and content height 900, \<^verbatim>\<open>setScrollTop(10000)\<close>
  clamps to \<open>contentOffset = -600\<close> (scroll-top 600), and \<^verbatim>\<open>setScrollTop(-10000)\<close>
  clamps to 0. Whenever the content is at least as high as the frame, every value
  passed to \<^verbatim>\<open>setScrollTop\<close>, \<open>NaN\<close> and the infinities included, leaves the offset
  inside \<open>[lowest, 0]\<close>.
\<close>

theorem setScrollTop_clamped:
  assumes "height (frameElementSize s) \<le> height (elementSize s)"
  shows "getLowestContentPosition s \<le> contentOffsetY (setScrollTop x s)
       \<and> contentOffsetY (setScrollTop x s) \<le> Fin 0
       \<and> (height (elementSize s) = 900 \<and> height (frameElementSize s) = 300 \<longrightarrow>
            contentOffsetY (setScrollTop (Fin 10000) s) = Fin (- 600)
          \<and> getScrollTop (setScrollTop (Fin 10000) s) = Fin 600
          \<and> contentOffsetY (setScrollTop (Fin (- 10000)) s) = Fin 0)"
  using assms
  by (cases x)
     (simp_all add: setScrollTop_offset getLowestContentPosition_Fin js_eq_def getScrollTop_def
       Let_def)

theorem setScrollTop_clamped_witness:
  "height (frameElementSize attached) \<le> height (elementSize attached)
   \<and> height (elementSize attached) = 900 \<and> height (frameElementSize attached) = 300
   \<and> contentOffsetY (setScrollTop (Fin 10000) attached) = Fin (- 600)
   \<and> getLowestContentPosition attached \<le> contentOffsetY (setScrollTop (Fin 123456) attached)
   \<and> contentOffsetY (setScrollTop (Fin 123456) attached) \<le> Fin 0"
proof -
  have h: "height (frameElementSize attached) \<le> height (elementSize attached)"
    by (simp add: attached_eq)
  show ?thesis
    using setScrollTop_clamped [OF h, of "Fin 123456"] h by (simp add: attached_eq)
qed

text \<open>
  The hypothesis on the heights is needed: when the content is shorter than the frame,
  \<open>lowest\<close> is positive, no offset is inside \<open>[lowest, 0]\<close>, and the clamp of
  \<^verbatim>\<open>animateWithinBounds\<close> puts the content at \<open>lowest\<close>, below the top of the frame.
\<close>

lemma setScrollTop_short_content:
  "contentOffsetY (setScrollTop (Fin 0) (attached\<lparr> elementSize := \<lparr> height = 200 \<rparr> \<rparr>)) =
     Fin 100"
  by (simp add: setScrollTop_offset getLowestContentPosition_Fin attached_eq js_eq_def Let_def)

section \<open>The overshoot and the carried velocity\<close>

lemma stage2Displacement_Fin:
  "stage2Displacement (Fin r) =
     Fin (max (- 100) (min 100 (- (r * r) / (2 * (10 * (if r < 0 then 0.0005 else - 0.0005))))))"
  by (simp add: stage2Displacement_def getAcceleration_def ACCELERATION_SLIDING_def
      ACCELERATION_BOUNCE_BACK_COEFF_def OUT_OF_BOUNDS_MAXIMUM_def Let_def max_def min_def)

lemma stage2Displacement_bounded:
  "\<not> isNaN v \<Longrightarrow> \<bar>stage2Displacement v\<bar> \<le> OUT_OF_BOUNDS_MAXIMUM"
proof (cases v)
  case (Fin r)
  show ?thesis unfolding Fin stage2Displacement_Fin OUT_OF_BOUNDS_MAXIMUM_def
    by (simp add: abs_le_iff)
qed (simp_all add: stage2Displacement_def getAcceleration_def ACCELERATION_SLIDING_def
      ACCELERATION_BOUNCE_BACK_COEFF_def OUT_OF_BOUNDS_MAXIMUM_def Let_def)

lemma setUpTransitionStage2_offset:
  "contentOffsetY (setUpTransitionStage2 s) =
     (if Fin 0 < endMomentumVelocity' s then stage2Displacement (endMomentumVelocity' s)
      else contentOffsetY s + stage2Displacement (endMomentumVelocity' s))"
  by (simp add: setUpTransitionStage2_def Let_def)

lemma setUpTransitionStage1_endMomentumVelocity:
  "endMomentumVelocity' (setUpTransitionStage1 s) =
     (if getEndVelocity s < Fin 0 then Fin (- 1) else Fin 1) *
     getEndMomentumVelocity (getEndVelocity s)
       (if Fin 0 < getEndVelocity s then - contentOffsetY s
        else getLowestContentPosition s - contentOffsetY s)
       (getAcceleration (getEndVelocity s))"
  by (simp add: setUpTransitionStage1_def Let_def)

lemma stage1_velocity_number:
  assumes inb: "\<not> isOutOfBounds s"
    and v: "getEndVelocity s = Fin r" and r: "r \<noteq> 0"
    and out: "positionIsOutOfBounds s
                (contentOffsetY s + - (Fin r * Fin r) / (Fin 2 * getAcceleration (Fin r)))"
  shows "\<not> isNaN (endMomentumVelocity' (setUpTransitionStage1 s))"
proof (cases "contentOffsetY s")
  case (Fin c)
  define l where "l = height (frameElementSize s) - height (elementSize s)"
  have low: "getLowestContentPosition s = Fin l"
    by (simp add: getLowestContentPosition_def l_def)
  have c: "c \<le> 0" "l \<le> c"
    using inb by (simp_all add: isOutOfBounds_def positionIsOutOfBounds_def Fin low)
  show ?thesis
  proof (cases "r < 0")
    case True
    have "0 < c - r * r * 1000 \<or> c - r * r * 1000 < l"
      using out True
      by (simp add: positionIsOutOfBounds_def Fin low getAcceleration_def
          ACCELERATION_SLIDING_def)
    moreover have "0 \<le> r * r" by simp
    ultimately have "c - r * r * 1000 < l" using c by linarith
    then have "0 \<le> r * r + (l - c) * 2 * 0.0005" by (simp add: field_simps)
    then show ?thesis
      using True
      by (simp add: setUpTransitionStage1_endMomentumVelocity v Fin low
          getEndMomentumVelocity_def getAcceleration_def ACCELERATION_SLIDING_def)
  next
    case False
    then have pos: "0 < r" using r by simp
    have "0 < c + r * r * 1000 \<or> c + r * r * 1000 < l"
      using out False
      by (simp add: positionIsOutOfBounds_def Fin low getAcceleration_def
          ACCELERATION_SLIDING_def)
    moreover have "0 \<le> r * r" by simp
    ultimately have "0 < c + r * r * 1000" using c by linarith
    then have "0 \<le> r * r + (- c) * 2 * (- 0.0005)" by (simp add: field_simps)
    then show ?thesis
      using pos
      by (simp add: setUpTransitionStage1_endMomentumVelocity v Fin low
          getEndMomentumVelocity_def getAcceleration_def ACCELERATION_SLIDING_def)
  qed
next
  case PInf
  then show ?thesis using inb by (simp add: isOutOfBounds_def positionIsOutOfBounds_def)
next
  case NInf
  then show ?thesis using inb
    by (simp add: isOutOfBounds_def positionIsOutOfBounds_def getLowestContentPosition_def)
next
  case NaN
  then show ?thesis using out
    by (simp add: positionIsOutOfBounds_def getAcceleration_def ACCELERATION_SLIDING_def
        getLowestContentPosition_def split: if_splits)
qed


section \<open>The invariant of the bounce\<close>

lemma animateWithinBounds_fields [simp]:
  "queuedTransitionStage' (animateWithinBounds y s) = queuedTransitionStage' s"
  "isDecelerating' (animateWithinBounds y s) = isDecelerating' s"
  "endMomentumVelocity' (animateWithinBounds y s) = endMomentumVelocity' s"
  by (simp_all add: animateWithinBounds_def Let_def)

lemma setScrollTop_fields [simp]:
  "queuedTransitionStage' (setScrollTop y s) = queuedTransitionStage' s"
  "isDecelerating' (setScrollTop y s) = isDecelerating' s"
  "endMomentumVelocity' (setScrollTop y s) = endMomentumVelocity' s"
  by (simp_all add: setScrollTop_def Let_def)

lemma showScrollBar_fields [simp]:
  "queuedTransitionStage' (showScrollBar a s) = queuedTransitionStage' s"
  "isDecelerating' (showScrollBar a s) = isDecelerating' s"
  "endMomentumVelocity' (showScrollBar a s) = endMomentumVelocity' s"
  "contentOffsetY (showScrollBar a s) = contentOffsetY s"
  "stopPropagationOnTouchEnd' (showScrollBar a s) = stopPropagationOnTouchEnd' s"
  by (simp_all add: showScrollBar_def Let_def)

lemma showScrollBarDelayed_fields [simp]:
  "queuedTransitionStage' (showScrollBarDelayed a s) = queuedTransitionStage' s"
  "isDecelerating' (showScrollBarDelayed a s) = isDecelerating' s"
  "endMomentumVelocity' (showScrollBarDelayed a s) = endMomentumVelocity' s"
  "contentOffsetY (showScrollBarDelayed a s) = contentOffsetY s"
  by (simp_all add: showScrollBarDelayed_def)

lemma scrollBarShowTimeoutFires_fields [simp]:
  "queuedTransitionStage' (scrollBarShowTimeoutFires s) = queuedTransitionStage' s"
  "isDecelerating' (scrollBarShowTimeoutFires s) = isDecelerating' s"
  "endMomentumVelocity' (scrollBarShowTimeoutFires s) = endMomentumVelocity' s"
  by (simp_all add: scrollBarShowTimeoutFires_def split: option.split)

lemma stopMomentum_fields [simp]:
  "queuedTransitionStage' (stopMomentum b s) =
     (if isDecelerating' s then NONE else queuedTransitionStage' s)"
  "isDecelerating' (stopMomentum b s) = False"
  "endMomentumVelocity' (stopMomentum b s) = endMomentumVelocity' s"
  "contentOffsetY (stopMomentum b s) =
     (if isDecelerating' s then Fin (elementM42 b) else contentOffsetY s)"
  by (simp_all add: stopMomentum_def isDecelerating_def Let_def)

lemma onTouchStart_fields [simp]:
  "queuedTransitionStage' (onTouchStart e b s) =
     (if isDecelerating' s then NONE else queuedTransitionStage' s)"
  "isDecelerating' (onTouchStart e b s) = False"
  "endMomentumVelocity' (onTouchStart e b s) = endMomentumVelocity' s"
  "contentOffsetY (onTouchStart e b s) =
     (if isDecelerating' s then Fin (elementM42 b) else contentOffsetY s)"
  "contentStartOffsetY (onTouchStart e b s) = contentOffsetY (onTouchStart e b s)"
  by (simp_all add: onTouchStart_def Let_def)

lemma isDragging_fields [simp]:
  "queuedTransitionStage' (snd (isDragging s)) = queuedTransitionStage' s"
  "isDecelerating' (snd (isDragging s)) = isDecelerating' s"
  "endMomentumVelocity' (snd (isDragging s)) = endMomentumVelocity' s"
  "contentOffsetY (snd (isDragging s)) = contentOffsetY s"
  "getLowestContentPosition (snd (isDragging s)) = getLowestContentPosition s"
  "isOutOfBounds (snd (isDragging s)) = isOutOfBounds s"
  "getEndVelocity (snd (isDragging s)) = getEndVelocity s"
  by (simp_all add: isDragging_def Let_def getLowestContentPosition_def isOutOfBounds_def
      positionIsOutOfBounds_def getEndVelocity_def)

lemma onTouchMove_fields [simp]:
  "queuedTransitionStage' (onTouchMove e b s) = queuedTransitionStage' s"
  "isDecelerating' (onTouchMove e b s) = isDecelerating' s"
  "endMomentumVelocity' (onTouchMove e b s) = endMomentumVelocity' s"
  by (simp_all add: onTouchMove_def Let_def case_prod_beta)


lemma doMomentum_bounce_inv:
  assumes "\<not> isOutOfBounds s" "bounce_inv s"
  shows "bounce_inv (doMomentum s)"
proof -
  obtain r where v: "getEndVelocity s = Fin r"
    using getEndVelocity_bounded [of s] by (auto simp: MAXIMUM_VELOCITY_def abs_le_Fin_iff)
  show ?thesis
  proof (cases "r = 0")
    case True
    then show ?thesis
      using assms(2) by (simp add: doMomentum_def v js_eq_def bounce_inv_def)
  next
    case False
    show ?thesis
    proof (cases "positionIsOutOfBounds s
                    (contentOffsetY s + - (Fin r * Fin r) / (Fin 2 * getAcceleration (Fin r)))")
      case True
      have "\<not> isNaN (endMomentumVelocity' (setUpTransitionStage1 s))"
        by (rule stage1_velocity_number [OF assms(1) v False True])
      then show ?thesis
        using True False by (simp add: doMomentum_def v js_eq_def bounce_inv_def Let_def)
    next
      case out: False
      then show ?thesis
        using False assms(2) by (simp add: doMomentum_def v js_eq_def bounce_inv_def Let_def)
    qed
  qed
qed

lemma synthesizeClick_fields [simp]:
  "queuedTransitionStage' (state_of (synthesizeClick b x y s)) = queuedTransitionStage' s"
  "isDecelerating' (state_of (synthesizeClick b x y s)) = isDecelerating' s"
  "endMomentumVelocity' (state_of (synthesizeClick b x y s)) = endMomentumVelocity' s"
  "contentOffsetY (state_of (synthesizeClick b x y s)) = contentOffsetY s"
  by (simp_all add: synthesizeClick_def focusIfNeeded_def split: option.split)

lemma onTouchEnd_fields:
  "queuedTransitionStage' (state_of (onTouchEnd e b s)) =
     queuedTransitionStage' (if fst (isDragging s)
        then (if shouldStartMomentum s then doMomentum (snd (isDragging s))
              else snapToBounds (snd (isDragging s)))
        else snd (isDragging s))"
  "isDecelerating' (state_of (onTouchEnd e b s)) =
     isDecelerating' (if fst (isDragging s)
        then (if shouldStartMomentum s then doMomentum (snd (isDragging s))
              else snapToBounds (snd (isDragging s)))
        else snd (isDragging s))"
  "endMomentumVelocity' (state_of (onTouchEnd e b s)) =
     endMomentumVelocity' (if fst (isDragging s)
        then (if shouldStartMomentum s then doMomentum (snd (isDragging s))
              else snapToBounds (snd (isDragging s)))
        else snd (isDragging s))"
  "contentOffsetY (state_of (onTouchEnd e b s)) =
     contentOffsetY (if fst (isDragging s)
        then (if shouldStartMomentum s then doMomentum (snd (isDragging s))
              else snapToBounds (snd (isDragging s)))
        else snd (isDragging s))"
  by (simp_all add: onTouchEnd_def Let_def case_prod_beta shouldStartMomentum_def
      split: completion.split)
     (auto simp: synthesizeClick_def focusIfNeeded_def split: option.splits if_splits)

lemma onTouchEnd_bounce_inv:
  assumes "bounce_inv s"
  shows "bounce_inv (state_of (onTouchEnd e b s))"
proof -
  have inv1: "bounce_inv (snd (isDragging s))"
    using assms by (simp add: bounce_inv_def)
  have "bounce_inv (if fst (isDragging s)
        then (if shouldStartMomentum s then doMomentum (snd (isDragging s))
              else snapToBounds (snd (isDragging s)))
        else snd (isDragging s))"
  proof (cases "fst (isDragging s)")
    case True
    show ?thesis
    proof (cases "shouldStartMomentum s")
      case start: True
      then have "\<not> isOutOfBounds (snd (isDragging s))"
        by (simp add: shouldStartMomentum_def split: if_splits)
      then show ?thesis
        using True start doMomentum_bounce_inv [OF _ inv1] by simp
    next
      case False
      then show ?thesis using True inv1 by (simp add: bounce_inv_def)
    qed
  next
    case False
    then show ?thesis using inv1 by simp
  qed
  then show ?thesis
    by (simp add: bounce_inv_def onTouchEnd_fields)
qed

lemma onTransitionEnd_bounce_inv:
  "bounce_inv s \<Longrightarrow> bounce_inv (onTransitionEnd e s)"
  by (simp add: onTransitionEnd_def bounce_inv_def split: QUEUED_TRANSITION_STAGE.split)

lemma enable_fields [simp]:
  "queuedTransitionStage' (snd (state_of (enable a b (g, s)))) = queuedTransitionStage' s"
  "isDecelerating' (snd (state_of (enable a b (g, s)))) = isDecelerating' s"
  "endMomentumVelocity' (snd (state_of (enable a b (g, s)))) = endMomentumVelocity' s"
  by (simp_all add: enable_def Let_def setUpStyles_def restoreStyles_def enterDocument_def
      exitDocument_def split: option.split)

lemma resetInternal_fields [simp]:
  "queuedTransitionStage' (resetInternal s) = queuedTransitionStage' s"
  "isDecelerating' (resetInternal s) = isDecelerating' s"
  "endMomentumVelocity' (resetInternal s) = endMomentumVelocity' s"
  by (simp_all add: resetInternal_def)

lemma add_fields [simp]:
  "queuedTransitionStage' (snd (state_of (add el b (g, s)))) = queuedTransitionStage' s"
  "isDecelerating' (snd (state_of (add el b (g, s)))) = isDecelerating' s"
  "endMomentumVelocity' (snd (state_of (add el b (g, s)))) = endMomentumVelocity' s"
  by (simp_all add: add_def Let_def)

lemma completion_pair_cases:
  obtains g1 s1 where "c = Normal (g1, s1)" | g1 s1 where "c = Threw (g1, s1)"
  by (cases c) auto

lemma reset_fields [simp]:
  "queuedTransitionStage' (snd (state_of (reset el b (g, s)))) = queuedTransitionStage' s"
  "isDecelerating' (snd (state_of (reset el b (g, s)))) = isDecelerating' s"
  "endMomentumVelocity' (snd (state_of (reset el b (g, s)))) = endMomentumVelocity' s"
proof -
  consider g1 s1 where "enable False b (g, s) = Normal (g1, s1)"
    | g1 s1 where "enable False b (g, s) = Threw (g1, s1)"
    by (rule completion_pair_cases)
  then have "queuedTransitionStage' (snd (state_of (reset el b (g, s)))) = queuedTransitionStage' s
    \<and> isDecelerating' (snd (state_of (reset el b (g, s)))) = isDecelerating' s
    \<and> endMomentumVelocity' (snd (state_of (reset el b (g, s)))) = endMomentumVelocity' s"
  proof cases
    case 1
    then show ?thesis
      using enable_fields [of False b g s] by (simp add: reset_def remove_def)
  next
    case 2
    then show ?thesis
      using enable_fields [of False b g s] by (simp add: reset_def remove_def)
  qed
  then show
    "queuedTransitionStage' (snd (state_of (reset el b (g, s)))) = queuedTransitionStage' s"
    "isDecelerating' (snd (state_of (reset el b (g, s)))) = isDecelerating' s"
    "endMomentumVelocity' (snd (state_of (reset el b (g, s)))) = endMomentumVelocity' s"
    by simp_all
qed

lemma resume_fields [simp]:
  "queuedTransitionStage' (snd (state_of (resume el b (g, s)))) = queuedTransitionStage' s"
  "isDecelerating' (snd (state_of (resume el b (g, s)))) = isDecelerating' s"
  "endMomentumVelocity' (snd (state_of (resume el b (g, s)))) = endMomentumVelocity' s"
proof -
  consider g1 s1 where "add el b (g, s) = Normal (g1, s1)"
    | g1 s1 where "add el b (g, s) = Threw (g1, s1)"
    by (rule completion_pair_cases)
  then have "queuedTransitionStage' (snd (state_of (resume el b (g, s)))) = queuedTransitionStage' s
    \<and> isDecelerating' (snd (state_of (resume el b (g, s)))) = isDecelerating' s
    \<and> endMomentumVelocity' (snd (state_of (resume el b (g, s)))) = endMomentumVelocity' s"
  proof cases
    case 1
    then show ?thesis
      using add_fields [of el b g s] by (simp add: resume_def)
  next
    case 2
    then show ?thesis
      using add_fields [of el b g s] by (simp add: resume_def)
  qed
  then show
    "queuedTransitionStage' (snd (state_of (resume el b (g, s)))) = queuedTransitionStage' s"
    "isDecelerating' (snd (state_of (resume el b (g, s)))) = isDecelerating' s"
    "endMomentumVelocity' (snd (state_of (resume el b (g, s)))) = endMomentumVelocity' s"
    by simp_all
qed

lemma disposeInternal_fields [simp]:
  "queuedTransitionStage' (snd (state_of (disposeInternal b (g, s)))) = queuedTransitionStage' s"
  "isDecelerating' (snd (state_of (disposeInternal b (g, s)))) = isDecelerating' s"
  "endMomentumVelocity' (snd (state_of (disposeInternal b (g, s)))) = endMomentumVelocity' s"
proof -
  consider g1 s1 where "enable False b (g, s) = Normal (g1, s1)"
    | g1 s1 where "enable False b (g, s) = Threw (g1, s1)"
    by (rule completion_pair_cases)
  then have "queuedTransitionStage' (snd (state_of (disposeInternal b (g, s)))) = queuedTransitionStage' s
    \<and> isDecelerating' (snd (state_of (disposeInternal b (g, s)))) = isDecelerating' s
    \<and> endMomentumVelocity' (snd (state_of (disposeInternal b (g, s)))) = endMomentumVelocity' s"
  proof cases
    case 1
    then show ?thesis
      using enable_fields [of False b g s] by (simp add: disposeInternal_def)
  next
    case 2
    then show ?thesis
      using enable_fields [of False b g s] by (simp add: disposeInternal_def)
  qed
  then show
    "queuedTransitionStage' (snd (state_of (disposeInternal b (g, s)))) = queuedTransitionStage' s"
    "isDecelerating' (snd (state_of (disposeInternal b (g, s)))) = isDecelerating' s"
    "endMomentumVelocity' (snd (state_of (disposeInternal b (g, s)))) = endMomentumVelocity' s"
    by simp_all
qed

lemma reachable_bounce_inv: "reachable s \<Longrightarrow> bounce_inv s"
proof (induction rule: reachable.induct)
  case reachable_initial
  show ?case by (simp add: bounce_inv_def initial_def)
next
  case (reachable_onTouchEnd s e b)
  then show ?case by (simp add: onTouchEnd_bounce_inv)
next
  case (reachable_onTransitionEnd s t)
  then show ?case by (simp add: onTransitionEnd_bounce_inv)
qed (auto simp: bounce_inv_def remove_def suspend_def)

section \<open>Touch start, the overshoot and the scrollbar line\<close>




text \<open>
  C5: the overshoot planned by \<^verbatim>\<open>setUpTransitionStage2\<close> is \<open>-v\<^sup>2/(2a)\<close> with
  \<open>a\<close> ten times the sliding acceleration that opposes \<open>v\<close>, clamped to
  \<open>[-100, 100]\<close>: its magnitude never exceeds \<open>OUT_OF_BOUNDS_MAXIMUM = 100\<close>, for every
  velocity that is a number, and so for every velocity that a reachable state carries
  into the stage \<open>BOUNCED_OUT\<close>. The new offset is the overshoot itself when \<open>v > 0\<close>
  and the old offset plus the overshoot otherwise.
\<close>

theorem overshoot_clamped:
  "(\<not> isNaN v \<longrightarrow> \<bar>stage2Displacement v\<bar> \<le> OUT_OF_BOUNDS_MAXIMUM)
   \<and> (reachable s \<and> queuedTransitionStage' s = TO_BOUNDS \<longrightarrow>
        \<bar>stage2Displacement (endMomentumVelocity' s)\<bar> \<le> OUT_OF_BOUNDS_MAXIMUM)
   \<and> stage2Displacement (Fin r) =
        Fin (max (- 100) (min 100
          (- (r * r) / (2 * (10 * (if r < 0 then 0.0005 else - 0.0005))))))
   \<and> contentOffsetY (setUpTransitionStage2 s) =
        (if Fin 0 < endMomentumVelocity' s then stage2Displacement (endMomentumVelocity' s)
         else contentOffsetY s + stage2Displacement (endMomentumVelocity' s))
   \<and> OUT_OF_BOUNDS_MAXIMUM = Fin 100"
proof (intro conjI impI)
  assume "reachable s \<and> queuedTransitionStage' s = TO_BOUNDS"
  then have "\<not> isNaN (endMomentumVelocity' s)"
    using reachable_bounce_inv [of s] by (simp add: bounce_inv_def)
  then show "\<bar>stage2Displacement (endMomentumVelocity' s)\<bar> \<le> OUT_OF_BOUNDS_MAXIMUM"
    by (rule stage2Displacement_bounded)
next
  assume "\<not> isNaN v"
  then show "\<bar>stage2Displacement v\<bar> \<le> OUT_OF_BOUNDS_MAXIMUM"
    by (rule stage2Displacement_bounded)
qed (simp_all add: stage2Displacement_Fin setUpTransitionStage2_offset
      OUT_OF_BOUNDS_MAXIMUM_def)

theorem overshoot_clamped_witness:
  "\<not> isNaN (Fin 3.5)
   \<and> stage2Displacement (Fin 3.5) = Fin 100
   \<and> reachable flicked \<and> queuedTransitionStage' flicked = TO_BOUNDS
   \<and> endMomentumVelocity' flicked = Fin (- sqrt 11.7)
   \<and> \<bar>stage2Displacement (endMomentumVelocity' flicked)\<bar> \<le> OUT_OF_BOUNDS_MAXIMUM
   \<and> contentOffsetY (setUpTransitionStage2 flicked) = Fin (- 700)"
  using overshoot_clamped [of "Fin 3.5" flicked "3.5"] reachable_flicked
  by (simp add: flicked_facts stage2Displacement_Fin OUT_OF_BOUNDS_MAXIMUM_def)

text \<open>
  The other paths keep the scrollbar line at or above \<open>SCROLLBAR_MIN_HEIGHT\<close>,
  unless both measured heights are 0 and the line height is \<open>NaN\<close>: the sizing
  in \<^verbatim>\<open>enable\<close> and \<^verbatim>\<open>snapToBounds\<close> write \<^verbatim>\<open>getScrollBarLineHeight\<close>
  itself, and \<^verbatim>\<open>animateTo\<close> bounds the reduced line from below.
\<close>

lemma getScrollBarLineHeight_min:
  assumes "\<not> (height es = 0 \<and> height fs = 0)"
  shows "SCROLLBAR_MIN_HEIGHT \<le> getScrollBarLineHeight es fs"
  using assms
  by (auto simp: getScrollBarLineHeight_def SCROLLBAR_MIN_HEIGHT_def Let_def)

lemma animateTo_line_min:
  assumes "\<not> (height (elementSize s) = 0 \<and> height (frameElementSize s) = 0)"
  shows "\<exists>k. lineTransform (animateTo (Fin y) False s) = Some (ScaleY k) \<and>
             SCROLLBAR_MIN_HEIGHT \<le> k"
proof -
  obtain h where h: "getScrollBarLineHeight (elementSize s) (frameElementSize s) = h"
    by simp
  have hmin: "SCROLLBAR_MIN_HEIGHT \<le> h"
    using getScrollBarLineHeight_min [OF assms] h by simp
  show ?thesis
    using hmin
    by (cases h)
       (auto simp: animateTo_def Let_def h getLowestContentPosition_def
          SCROLLBAR_MIN_HEIGHT_def minus_jsnum_def)
qed

lemma snapToBounds_line_min:
  assumes "\<not> (height (elementSize s) = 0 \<and> height (frameElementSize s) = 0)"
  shows "\<exists>k. lineTransform (snapToBounds s) = Some (ScaleY k) \<and> SCROLLBAR_MIN_HEIGHT \<le> k"
  using getScrollBarLineHeight_min [OF assms] by (simp add: snapToBounds_def Let_def)

text \<open>
  C9 fails on the code. In the run of scenario 3 the scrollbar line is 100 long and the
  overshoot is clamped to 100: \<^verbatim>\<open>setUpTransitionStage2\<close> writes
  \<^verbatim>\<open>scaleY(0)\<close> to the scrollbar line, below \<open>SCROLLBAR_MIN_HEIGHT = 5\<close>. It subtracts
  the overshoot from the line height as \<^verbatim>\<open>animateTo\<close> does, without the lower
  bound that \<^verbatim>\<open>animateTo\<close> applies to the difference.
\<close>

theorem stage2_scrollbar_below_minimum:
  "reachable flicked
   \<and> queuedTransitionStage' flicked = TO_BOUNDS
   \<and> Some (eventTarget \<lparr> eventTarget = 2 \<rparr>) = element flicked
   \<and> lineTransform (onTransitionEnd \<lparr> eventTarget = 2 \<rparr> flicked) = Some (ScaleY (Fin 0))
   \<and> Fin 0 < SCROLLBAR_MIN_HEIGHT"
  using reachable_flicked
  by (simp add: flicked_facts onTransitionEnd_def setUpTransitionStage2_def
      stage2Displacement_Fin getScrollBarLineHeight_def SCROLLBAR_MIN_HEIGHT_def Let_def)

section \<open>Enabling and the instance counter\<close>

lemma enable_same: "enabled' s = Some a \<Longrightarrow> enable a b (g, s) = Normal (g, s)"
  by (simp add: enable_def isEnabled_def)

lemma enable_enabled:
  "enabled' (snd (state_of (enable a b (g, s)))) = Some a"
  by (simp add: enable_def isEnabled_def Let_def setUpStyles_def restoreStyles_def
      enterDocument_def exitDocument_def animateWithinBounds_def animateTo_def
      split: option.split)

lemma enable_count:
  "instancesCount' (fst (state_of (enable a b (g, s)))) =
     (if enabled' s = Some a then instancesCount' g
      else if a then instancesCount' g + 1
      else max 0 (instancesCount' g - 1))"
  by (simp add: enable_def isEnabled_def Let_def addStyleSheet_def removeStyleSheet_def
      split: option.split)

lemma enableAt_count:
  "0 \<le> instancesCount' (fst w) \<Longrightarrow> 0 \<le> instancesCount' (fst (enableAt c w))"
proof -
  obtain i a b where c: "c = (i, a, b)" by (cases c) auto
  obtain g ss where w: "w = (g, ss)" by (cases w) auto
  assume "0 \<le> instancesCount' (fst w)"
  then show ?thesis
    using enable_count [of a b g "ss i"]
    by (simp add: enableAt_def c w case_prod_beta)
qed

lemma fold_enableAt_count:
  "0 \<le> instancesCount' (fst w) \<Longrightarrow> 0 \<le> instancesCount' (fst (fold enableAt cs w))"
  by (induction cs arbitrary: w) (simp_all add: enableAt_count)

text \<open>
  C10: \<^verbatim>\<open>enable(b)\<close> on a scroller whose flag already is \<open>b\<close> returns at once and
  changes nothing, neither in the scroller and what it has written to the document nor
  in the counter and the stylesheet of the class. So a second \<^verbatim>\<open>remove\<close> in a row
  changes nothing, whether the first returned or threw, and the two together lower the
  counter by at most one. Over any sequence of \<^verbatim>\<open>enable\<close> calls on any scrollers
  the counter stays at or above 0.
\<close>

theorem enable_idempotent:
  "(enabled' s = Some a \<longrightarrow> enable a b (g, s) = Normal (g, s))
   \<and> remove b2 (state_of (remove b (g, s))) = Normal (state_of (remove b (g, s)))
   \<and> instancesCount' g - 1 \<le> instancesCount' (fst (state_of (remove b (g, s))))
   \<and> (0 \<le> instancesCount' g \<longrightarrow>
        0 \<le> instancesCount' (fst (fold enableAt cs (g, ss))))"
proof (intro conjI impI)
  obtain g1 s1 where r: "state_of (remove b (g, s)) = (g1, s1)"
    by (cases "state_of (remove b (g, s))") auto
  have "enabled' s1 = Some False"
    using enable_enabled [of False b g s] r by (simp add: remove_def)
  then have "remove b2 (g1, s1) = Normal (g1, s1)"
    by (simp add: remove_def enable_same)
  then show "remove b2 (state_of (remove b (g, s))) = Normal (state_of (remove b (g, s)))"
    by (simp only: r)
  show "instancesCount' g - 1 \<le> instancesCount' (fst (state_of (remove b (g, s))))"
    using enable_count [of False b g s] by (simp add: remove_def)
next
  assume "0 \<le> instancesCount' g"
  then show "0 \<le> instancesCount' (fst (fold enableAt cs (g, ss)))"
    using fold_enableAt_count [of "(g, ss)" cs] by simp
qed (simp add: enable_same)

theorem enable_idempotent_witness:
  "enabled' attached = Some True
   \<and> enable True page (initial_glob, attached) = Normal (initial_glob, attached)
   \<and> 0 \<le> instancesCount' initial_glob
   \<and> 0 \<le> instancesCount' (fst (fold enableAt
         [(0, False, page), (0, False, page), (1, True, page), (0, True, page)]
         (initial_glob, \<lambda>i. initial)))
   \<and> instancesCount' (fst (state_of (remove page (initial_glob, initial)))) = 0"
  using enable_idempotent [of attached True page initial_glob page
      "[(0, False, page), (0, False, page), (1, True, page), (0, True, page)]" "\<lambda>i. initial"]
    enable_idempotent [of initial True page initial_glob page "[]" "\<lambda>i. initial"]
  by (simp add: attached_eq initial_glob_def initial_def remove_def enable_count)

section \<open>Snapping to the bounds\<close>







section \<open>The damped drag\<close>








section \<open>Taps\<close>





lemma touch_end_frame [simp]:
  "stopPropagationOnTouchEnd' (doMomentum s) = stopPropagationOnTouchEnd' s"
  "currentPoint' (doMomentum s) = currentPoint' s"
  "startTouchY (doMomentum s) = startTouchY s"
  "startTouchX (doMomentum s) = startTouchX s"
  "effects (doMomentum s) = effects s"
  "stopPropagationOnTouchEnd' (snapToBounds s) = stopPropagationOnTouchEnd' s"
  "currentPoint' (snapToBounds s) = currentPoint' s"
  "startTouchY (snapToBounds s) = startTouchY s"
  "startTouchX (snapToBounds s) = startTouchX s"
  "effects (snapToBounds s) = effects s"
  "stopPropagationOnTouchEnd' (showScrollBarDelayed a s) = stopPropagationOnTouchEnd' s"
  "currentPoint' (showScrollBarDelayed a s) = currentPoint' s"
  "startTouchY (showScrollBarDelayed a s) = startTouchY s"
  "startTouchX (showScrollBarDelayed a s) = startTouchX s"
  "effects (showScrollBarDelayed a s) = effects s"
  "stopPropagationOnTouchEnd' (snd (isDragging s)) = stopPropagationOnTouchEnd' s"
  "currentPoint' (snd (isDragging s)) = currentPoint' s"
  "startTouchY (snd (isDragging s)) = startTouchY s"
  "startTouchX (snd (isDragging s)) = startTouchX s"
  "effects (snd (isDragging s)) = effects s"
  by (simp_all add: doMomentum_def setUpTransitionStage1_def snapToBounds_def
      showScrollBarDelayed_def isDragging_def Let_def)











end
